theory Spec2Isabelle
  imports Complex_Main "HOL-Library.Sublist"
begin

section \<open>JavaScript numbers\<close>

text \<open>
  A JavaScript \<open>number\<close> is an IEEE-754 double. The model keeps the values the
  comparisons of the program tell apart: the not-a-number value, the two infinities and
  the finite values, the latter as reals. Rounding is not modelled: the operations used
  below on numbers are comparisons and the sign of a difference, and on doubles the sign
  of a rounded difference is the sign of the exact one.
\<close>

datatype number = NaN | NegInf | Fin real | PosInf

text \<open>The relational operators \<open><\<close>, \<open>>\<close>, \<open><=\<close>, \<open>>=\<close>: every comparison
  with \<open>NaN\<close> is false.\<close>

fun js_lt :: "number \<Rightarrow> number \<Rightarrow> bool" where
  "js_lt NaN _ = False"
| "js_lt _ NaN = False"
| "js_lt (Fin x) (Fin y) = (x < y)"
| "js_lt NegInf NegInf = False"
| "js_lt NegInf _ = True"
| "js_lt _ NegInf = False"
| "js_lt PosInf _ = False"
| "js_lt _ PosInf = True"

definition js_gt :: "number \<Rightarrow> number \<Rightarrow> bool" where
  "js_gt a b = js_lt b a"

definition js_le :: "number \<Rightarrow> number \<Rightarrow> bool" where
  "js_le a b = (a \<noteq> NaN \<and> b \<noteq> NaN \<and> \<not> js_lt b a)"

definition js_ge :: "number \<Rightarrow> number \<Rightarrow> bool" where
  "js_ge a b = js_le b a"

text \<open>The binary \<open>-\<close> on numbers.\<close>

fun js_sub :: "number \<Rightarrow> number \<Rightarrow> number" where
  "js_sub NaN _ = NaN"
| "js_sub _ NaN = NaN"
| "js_sub (Fin x) (Fin y) = Fin (x - y)"
| "js_sub PosInf PosInf = NaN"
| "js_sub NegInf NegInf = NaN"
| "js_sub PosInf _ = PosInf"
| "js_sub NegInf _ = NegInf"
| "js_sub (Fin x) PosInf = NegInf"
| "js_sub (Fin x) NegInf = PosInf"

definition isNaN :: "number \<Rightarrow> bool" where
  "isNaN n = (n = NaN)"

section \<open>\<open>apiUtils\<close>: borough classifier, radius filter, distance sort\<close>

text \<open>\<open>getBoroughFromCoordinates(lat, lon)\<close>: an ordered chain of bounding tests, the
  first matching one decides.\<close>

definition getBoroughFromCoordinates :: "number \<Rightarrow> number \<Rightarrow> string" where
  "getBoroughFromCoordinates lat lon =
     (if js_gt lat (Fin 40.7589) \<and> js_gt lon (Fin (-73.9441)) then ''manhattan''
      else if js_gt lat (Fin 40.6892) \<and> js_le lat (Fin 40.7394) \<and> js_le lon (Fin (-73.8648))
        then ''queens''
      else if js_gt lat (Fin 40.5706) \<and> js_le lat (Fin 40.7394) \<and> js_le lon (Fin (-73.8648))
        then ''brooklyn''
      else if js_gt lat (Fin 40.7896) \<and> js_le lon (Fin (-73.8648)) then ''bronx''
      else if js_le lat (Fin 40.5706) then ''staten_island''
      else ''unknown'')"

text \<open>The type parameter \<open>T extends { distance: number }\<close> of \<open>sortByDistance\<close> and
  \<open>filterByRadius\<close> is an extensible record with a \<open>distance\<close> field.\<close>

record with_distance =
  distance :: number

text \<open>\<open>filterByRadius(items, maxRadius)\<close> is
  \<open>items.filter(item => item.distance <= maxRadius)\<close>.\<close>

definition filterByRadius ::
  "'a with_distance_scheme list \<Rightarrow> number \<Rightarrow> 'a with_distance_scheme list" where
  "filterByRadius items maxRadius = filter (\<lambda>item. js_le (distance item) maxRadius) items"

text \<open>
  \<open>Array.prototype.sort(comparefn)\<close>. The language fixes the sort as stable and reads
  the comparator through \<open>SortCompare\<close>: a \<open>NaN\<close> result counts as \<open>+0\<close>. For a
  consistent comparator the stable sorted arrangement is unique, so every conforming
  engine returns it; the model computes it by stable insertion (an element moves right
  past exactly the elements it compares greater than). For an inconsistent comparator,
  as \<open>a.distance - b.distance\<close> is on a list with a \<open>NaN\<close> distance among unequal ones,
  the order is implementation-defined: an engine's order can then differ from the
  model's. On two elements that tie both ways every stable sort keeps the input order.
\<close>

definition SortCompare :: "('a \<Rightarrow> 'a \<Rightarrow> number) \<Rightarrow> 'a \<Rightarrow> 'a \<Rightarrow> number" where
  "SortCompare comparefn x y = (let v = comparefn x y in if isNaN v then Fin 0 else v)"

fun sort_insert :: "('a \<Rightarrow> 'a \<Rightarrow> number) \<Rightarrow> 'a \<Rightarrow> 'a list \<Rightarrow> 'a list" where
  "sort_insert comparefn x [] = [x]"
| "sort_insert comparefn x (y # ys) =
     (if js_gt (SortCompare comparefn x y) (Fin 0) then y # sort_insert comparefn x ys
      else x # y # ys)"

definition Array_sort :: "('a \<Rightarrow> 'a \<Rightarrow> number) \<Rightarrow> 'a list \<Rightarrow> 'a list" where
  "Array_sort comparefn xs = foldr (sort_insert comparefn) xs []"

text \<open>\<open>sortByDistance(items)\<close> is \<open>[...items].sort((a, b) => a.distance - b.distance)\<close>;
  \<open>by_distance\<close> is the comparator. On array values the spread copy is the identity; the
  store-level model further down keeps the copy.\<close>

definition by_distance :: "'a with_distance_scheme \<Rightarrow> 'a with_distance_scheme \<Rightarrow> number" where
  "by_distance a b = js_sub (distance a) (distance b)"

definition sortByDistance :: "'a with_distance_scheme list \<Rightarrow> 'a with_distance_scheme list" where
  "sortByDistance items = Array_sort by_distance items"

abbreviation le_dist :: "'a with_distance_scheme \<Rightarrow> 'a with_distance_scheme \<Rightarrow> bool" where
  "le_dist a b \<equiv> js_le (distance a) (distance b)"

subsection \<open>Arrays in a store\<close>

text \<open>
  Arrays are objects: a variable holds a reference, and \<open>sort\<close> rearranges the array it
  is called on. The store lists the arrays allocated so far, an address is a position
  in it, and allocation appends. \<open>[...items]\<close> allocates a copy, \<open>sort\<close> overwrites the
  array at its address and returns that address, \<open>filter\<close> allocates its result. A
  reference held by a running program is never dangling; the functions return \<open>None\<close>
  on an address outside the store.
\<close>

type_synonym 'a store = "'a list list"
type_synonym addr = nat

definition alloc :: "'a store \<Rightarrow> 'a list \<Rightarrow> 'a store \<times> addr" where
  "alloc s xs = (s @ [xs], length s)"

definition sort_in_place ::
  "('a \<Rightarrow> 'a \<Rightarrow> number) \<Rightarrow> 'a store \<Rightarrow> addr \<Rightarrow> 'a store \<times> addr" where
  "sort_in_place comparefn s a = (s[a := Array_sort comparefn (s ! a)], a)"

definition sortByDistance_store ::
  "'a with_distance_scheme store \<Rightarrow> addr \<Rightarrow> ('a with_distance_scheme store \<times> addr) option" where
  "sortByDistance_store s items =
     (if items < length s then
        (let (s1, copy) = alloc s (s ! items) in Some (sort_in_place by_distance s1 copy))
      else None)"

definition filterByRadius_store ::
  "'a with_distance_scheme store \<Rightarrow> addr \<Rightarrow> number
     \<Rightarrow> ('a with_distance_scheme store \<times> addr) option" where
  "filterByRadius_store s items maxRadius =
     (if items < length s then
        Some (alloc s (filter (\<lambda>item. js_le (distance item) maxRadius) (s ! items)))
      else None)"

subsection \<open>The haversine formula\<close>

text \<open>
  \<open>calculateDistance(lat1, lon1, lat2, lon2)\<close> computes with \<open>Math.sin\<close>, \<open>Math.cos\<close>,
  \<open>Math.sqrt\<close> and \<open>Math.atan2\<close> in double precision, whose roundings the language leaves
  to the implementation. The definitions below are the same formula on real numbers.
\<close>

text \<open>\<open>Math.atan2(y, x)\<close> on real numbers.\<close>

definition atan2 :: "real \<Rightarrow> real \<Rightarrow> real" where
  "atan2 y x =
     (if 0 < x then arctan (y / x)
      else if x < 0 \<and> 0 \<le> y then arctan (y / x) + pi
      else if x < 0 then arctan (y / x) - pi
      else if 0 < y then pi / 2
      else if y < 0 then - (pi / 2)
      else 0)"

text \<open>The \<open>a\<close> and the result of \<open>calculateDistance\<close>, on real numbers.\<close>

definition haversine_a :: "real \<Rightarrow> real \<Rightarrow> real \<Rightarrow> real \<Rightarrow> real" where
  "haversine_a lat1 lon1 lat2 lon2 =
     (let phi1 = (lat1 * pi) / 180;
          phi2 = (lat2 * pi) / 180;
          dphi = ((lat2 - lat1) * pi) / 180;
          dlambda = ((lon2 - lon1) * pi) / 180
      in sin (dphi / 2) * sin (dphi / 2)
         + cos phi1 * cos phi2 * sin (dlambda / 2) * sin (dlambda / 2))"

definition calculateDistance_real :: "real \<Rightarrow> real \<Rightarrow> real \<Rightarrow> real \<Rightarrow> real" where
  "calculateDistance_real lat1 lon1 lat2 lon2 =
     (let R = 6371000;
          a = haversine_a lat1 lon1 lat2 lon2;
          c = 2 * atan2 (sqrt a) (sqrt (1 - a))
      in R * c)"

section \<open>The client-side \<open>api\<close>: nearest meter\<close>

text \<open>
  \<open>getMeterRate(params)\<close> of the client-only variant loads the meter zones, scans them
  for the one nearest to \<open>(params.lat, params.lon)\<close> and throws
  \<open>Error('No meter found')\<close> when there is none. The zones are the records of
  \<open>loadMeterZonesRaw()\<close>, with the fields the function reads; the model takes the loaded
  list as an argument. \<open>calculateDistance\<close> is imported from the module
  \<open>./utils/geospatial\<close> and is a parameter of the model: a function from two
  \<open>[lat, lon]\<close> pairs to a number.
\<close>

datatype error = Error string

record MeterRateRequest =
  params_lat :: number
  params_lon :: number

record MeterZone =
  meter_number :: string
  zone_lat :: number
  zone_long :: number
  meter_hours :: string
  status :: "string option"
  on_street :: string
  borough :: "string option"

record RateScheduleEntry =
  hours :: string
  rate :: string
  rate_type :: string

record MeterRate = with_distance +
  meter_id :: string
  meter_latitude :: number
  meter_longitude :: number
  rate_schedule :: "RateScheduleEntry list"
  meter_status :: string
  meter_street_name :: string
  meter_borough :: "string option"

text \<open>\<open>String.prototype.toLowerCase\<close>, on the ASCII letters only; the language maps
  every cased letter. It is used for the \<open>status\<close> and \<open>borough\<close> texts of a meter.\<close>

definition toLowerCase :: "string \<Rightarrow> string" where
  "toLowerCase s =
     map (\<lambda>c. case map_of (zip ''ABCDEFGHIJKLMNOPQRSTUVWXYZ'' ''abcdefghijklmnopqrstuvwxyz'') c of
                None \<Rightarrow> c | Some l \<Rightarrow> l) s"

text \<open>The loop \<open>for (const item of raw) { ... if (!best || d < best.distance) best = ... }\<close>,
  with \<open>best\<close> threaded through; \<open>None\<close> is \<open>null\<close>.\<close>

type_synonym distance_fn = "number \<times> number \<Rightarrow> number \<times> number \<Rightarrow> number"

fun getMeterRate_loop ::
  "distance_fn \<Rightarrow> MeterRateRequest \<Rightarrow> MeterZone list \<Rightarrow> (MeterZone \<times> number) option
     \<Rightarrow> (MeterZone \<times> number) option" where
  "getMeterRate_loop calculateDistance params [] best = best"
| "getMeterRate_loop calculateDistance params (item # raw) best =
     (let d = calculateDistance (params_lat params, params_lon params) (zone_lat item, zone_long item)
      in getMeterRate_loop calculateDistance params raw
           (case best of
              None \<Rightarrow> Some (item, d)
            | Some b \<Rightarrow> if js_lt d (snd b) then Some (item, d) else best))"

text \<open>The object \<open>getMeterRate\<close> returns for the zone \<open>z\<close> at distance \<open>d\<close>;
  \<open>z.status || 'unknown'\<close> takes \<open>'unknown'\<close> for a missing or empty status.\<close>

definition meterRateOf :: "MeterZone \<Rightarrow> number \<Rightarrow> MeterRate" where
  "meterRateOf z d =
     \<lparr>distance = d,
      meter_id = meter_number z,
      meter_latitude = zone_lat z,
      meter_longitude = zone_long z,
      rate_schedule = [\<lparr>hours = meter_hours z, rate = ''0'', rate_type = ''hourly''\<rparr>],
      meter_status =
        toLowerCase (case status z of None \<Rightarrow> ''unknown''
                     | Some st \<Rightarrow> if st = [] then ''unknown'' else st),
      meter_street_name = on_street z,
      meter_borough = map_option toLowerCase (borough z)\<rparr>"

definition getMeterRate ::
  "distance_fn \<Rightarrow> MeterZone list \<Rightarrow> MeterRateRequest \<Rightarrow> error + MeterRate" where
  "getMeterRate calculateDistance raw params =
     (case getMeterRate_loop calculateDistance params raw None of
        None \<Rightarrow> Inl (Error ''No meter found'')
      | Some best \<Rightarrow> Inr (meterRateOf (fst best) (snd best)))"

abbreviation dist_to ::
  "distance_fn \<Rightarrow> MeterRateRequest \<Rightarrow> MeterZone \<Rightarrow> number" where
  "dist_to cd params item \<equiv> cd (params_lat params, params_lon params) (zone_lat item, zone_long item)"



section \<open>\<open>storage\<close>: the search history\<close>

record MapLocation =
  latitude :: number
  longitude :: number
  address :: "string option"

datatype search_type = Address | Coordinates

record SearchHistoryItem =
  item_id :: string
  query :: string
  location :: MapLocation
  timestamp :: string
  item_type :: search_type

text \<open>
  The browser as \<open>storage\<close> sees it: whether \<open>window\<close> is defined, and the item of
  \<open>localStorage\<close> under the key \<open>nyc-parking-search-history\<close> (\<open>None\<close>: no item). The item
  is kept as the list it encodes: \<open>JSON.parse\<close> gives back what \<open>JSON.stringify\<close> wrote,
  but for a coordinate that is not finite, which is written as \<open>null\<close>; the queries,
  the order and the number of the items are not touched by that.
\<close>

record browser =
  window_defined :: bool
  search_history :: "SearchHistoryItem list option"

definition getSearchHistory :: "browser \<Rightarrow> SearchHistoryItem list" where
  "getSearchHistory s =
     (if \<not> window_defined s then []
      else case search_history s of None \<Rightarrow> [] | Some history \<Rightarrow> history)"

text \<open>\<open>addToSearchHistory(query, location, type)\<close>; the results of
  \<open>crypto.randomUUID()\<close> and \<open>new Date().toISOString()\<close> are arguments. \<open>unshift\<close> puts
  the new item in front, \<open>slice(0, 20)\<close> keeps the first twenty.\<close>

definition addToSearchHistory ::
  "string \<Rightarrow> string \<Rightarrow> string \<Rightarrow> MapLocation \<Rightarrow> search_type \<Rightarrow> browser \<Rightarrow> browser" where
  "addToSearchHistory randomUUID now q loc ty s =
     (if \<not> window_defined s then s
      else
        let history = getSearchHistory s;
            newItem = \<lparr>item_id = randomUUID, query = q, location = loc, timestamp = now,
                       item_type = ty\<rparr>;
            filteredHistory = filter (\<lambda>item. query item \<noteq> q) history;
            filteredHistory = newItem # filteredHistory;
            limitedHistory = take 20 filteredHistory
        in s\<lparr>search_history := Some limitedHistory\<rparr>)"

definition clearSearchHistory :: "browser \<Rightarrow> browser" where
  "clearSearchHistory s = (if \<not> window_defined s then s else s\<lparr>search_history := None\<rparr>)"

text \<open>The states of the search history a run of the application reaches: it starts
  with no stored item, and only \<open>addToSearchHistory\<close> and \<open>clearSearchHistory\<close> write the
  key.\<close>

inductive reachable :: "browser \<Rightarrow> bool" where
  fresh: "search_history s = None \<Longrightarrow> reachable s"
| added: "reachable s \<Longrightarrow> reachable (addToSearchHistory randomUUID now q loc ty s)"
| cleared: "reachable s \<Longrightarrow> reachable (clearSearchHistory s)"

text \<open>A location for the examples.\<close>

definition loc0 :: MapLocation where
  "loc0 = \<lparr>latitude = Fin 40.7128, longitude = Fin (-74.006), address = None\<rparr>"

section \<open>\<open>validation\<close>: coordinates and radius\<close>

text \<open>The validators take \<open>string | number\<close> and read a string through
  \<open>parseFloat\<close>, a function of the language: it is a parameter of the model.\<close>

datatype string_or_number = Str string | Num number

definition to_num :: "(string \<Rightarrow> number) \<Rightarrow> string_or_number \<Rightarrow> number" where
  "to_num parseFloat v = (case v of Str s \<Rightarrow> parseFloat s | Num n \<Rightarrow> n)"

definition isValidLatitude :: "(string \<Rightarrow> number) \<Rightarrow> string_or_number \<Rightarrow> bool" where
  "isValidLatitude parseFloat lat =
     (let num = to_num parseFloat lat
      in \<not> isNaN num \<and> js_ge num (Fin (-90)) \<and> js_le num (Fin 90))"

definition isValidLongitude :: "(string \<Rightarrow> number) \<Rightarrow> string_or_number \<Rightarrow> bool" where
  "isValidLongitude parseFloat lon =
     (let num = to_num parseFloat lon
      in \<not> isNaN num \<and> js_ge num (Fin (-180)) \<and> js_le num (Fin 180))"

definition isValidRadius :: "(string \<Rightarrow> number) \<Rightarrow> string_or_number \<Rightarrow> bool" where
  "isValidRadius parseFloat radius =
     (let num = to_num parseFloat radius
      in \<not> isNaN num \<and> js_gt num (Fin 0) \<and> js_le num (Fin 5000))"

subsection \<open>The coordinate form\<close>

text \<open>\<open>String.prototype.trim\<close>, on the ASCII white space.\<close>

definition white_space :: "char list" where
  "white_space = [CHR 0x09, CHR 0x0A, CHR 0x0B, CHR 0x0C, CHR 0x0D, CHR 0x20]"

definition trim :: "string \<Rightarrow> string" where
  "trim s = rev (dropWhile (\<lambda>c. c \<in> set white_space)
                  (rev (dropWhile (\<lambda>c. c \<in> set white_space) s)))"

text \<open>
  The state of the \<open>CoordinateInput\<close> component that \<open>validateInputs\<close> and
  \<open>handleSubmit\<close> read: the three text fields, the \<open>showRadius\<close> property and whether an
  \<open>onRadiusChange\<close> callback was given. \<open>validateInputs\<close> returns the new errors and
  whether there are none; \<open>handleSubmit\<close> returns them with the calls it makes, in order:
  none when the validation fails.
\<close>

record CoordinateInput =
  latitude_text :: string
  longitude_text :: string
  radius_text :: string
  showRadius :: bool
  onRadiusChange_given :: bool

record input_errors =
  latitude_error :: "string option"
  longitude_error :: "string option"
  radius_error :: "string option"

definition validateInputs :: "(string \<Rightarrow> number) \<Rightarrow> CoordinateInput \<Rightarrow> input_errors \<times> bool" where
  "validateInputs parseFloat f =
     (let newErrors =
        \<lparr>latitude_error =
           (if trim (latitude_text f) = [] then Some ''Latitude is required''
            else if \<not> isValidLatitude parseFloat (Str (latitude_text f))
              then Some ''Invalid latitude (-90 to 90)''
            else None),
         longitude_error =
           (if trim (longitude_text f) = [] then Some ''Longitude is required''
            else if \<not> isValidLongitude parseFloat (Str (longitude_text f))
              then Some ''Invalid longitude (-180 to 180)''
            else None),
         radius_error =
           (if showRadius f then
              (if trim (radius_text f) = [] then Some ''Radius is required''
               else if \<not> isValidRadius parseFloat (Str (radius_text f))
                 then Some ''Invalid radius (1-5000 meters)''
               else None)
            else None)\<rparr>
      in (newErrors,
          latitude_error newErrors = None \<and> longitude_error newErrors = None
            \<and> radius_error newErrors = None))"

datatype effect =
    OnLocationSelect MapLocation
  | OnRadiusChange number
  | AddToSearchHistory string MapLocation search_type

definition handleSubmit :: "(string \<Rightarrow> number) \<Rightarrow> CoordinateInput \<Rightarrow> input_errors \<times> effect list" where
  "handleSubmit parseFloat f =
     (let (errors, ok) = validateInputs parseFloat f in
      if \<not> ok then (errors, [])
      else
        let location = \<lparr>latitude = parseFloat (latitude_text f),
                         longitude = parseFloat (longitude_text f), address = None\<rparr>
        in (errors,
            [OnLocationSelect location]
            @ (if showRadius f \<and> onRadiusChange_given f
               then [OnRadiusChange (parseFloat (radius_text f))] else [])
            @ [AddToSearchHistory (latitude_text f @ '', '' @ longitude_text f) location
                 Coordinates]))"

text \<open>A \<open>parseFloat\<close> on a few strings and a filled form, for the examples.\<close>

definition parse_example :: "string \<Rightarrow> number" where
  "parse_example s =
     (case map_of [(''40.7580'', Fin 40.7580), (''-73.9855'', Fin (-73.9855)),
                   (''500'', Fin 500), (''5000'', Fin 5000), (''5001'', Fin 5001),
                   (''0'', Fin 0), (''-1'', Fin (-1)), (''Infinity'', PosInf)] s of
        None \<Rightarrow> NaN | Some n \<Rightarrow> n)"

definition form_example :: "string \<Rightarrow> CoordinateInput" where
  "form_example r = \<lparr>latitude_text = ''40.7580'', longitude_text = ''-73.9855'',
      radius_text = r, showRadius = True, onRadiusChange_given = True\<rparr>"

section \<open>The HTTP \<open>api\<close>: \<open>getParkingSigns\<close> with a body of unknown shape\<close>

text \<open>
  The variant of \<open>getParkingSigns\<close> that probes the response body: \<open>response.data\<close> is
  any parsed JSON value (or a string, or \<open>undefined\<close>), and so are the items.
\<close>

datatype jsval =
    JUndefined
  | JNull
  | JBool bool
  | JNum number
  | JStr string
  | JArr "jsval list"
  | JObj "(string \<times> jsval) list"

text \<open>The exception the function can raise by itself: reading a property of \<open>null\<close> or
  \<open>undefined\<close>, or converting an object that has no primitive value.\<close>

datatype type_error = TypeError

definition typeof :: "jsval \<Rightarrow> string" where
  "typeof v = (case v of
      JUndefined \<Rightarrow> ''undefined''
    | JNull \<Rightarrow> ''object''
    | JBool _ \<Rightarrow> ''boolean''
    | JNum _ \<Rightarrow> ''number''
    | JStr _ \<Rightarrow> ''string''
    | JArr _ \<Rightarrow> ''object''
    | JObj _ \<Rightarrow> ''object'')"

definition isArray :: "jsval \<Rightarrow> bool" where
  "isArray v = (case v of JArr _ \<Rightarrow> True | _ \<Rightarrow> False)"

text \<open>\<open>a ?? b\<close> is \<open>b\<close> when \<open>a\<close> is \<open>null\<close> or \<open>undefined\<close>, and \<open>a\<close> otherwise.\<close>

definition nullish :: "jsval \<Rightarrow> bool" where
  "nullish v = (v = JUndefined \<or> v = JNull)"

definition coalesce :: "jsval \<Rightarrow> jsval \<Rightarrow> jsval" where
  "coalesce a b = (if nullish a then b else a)"

text \<open>
  Property reads, for the names the function reads (none of them is a property of a
  prototype): \<open>property\<close> on a value that is neither \<open>null\<close> nor \<open>undefined\<close>, \<open>get\<close> for
  \<open>v.k\<close>, which throws on \<open>null\<close> and \<open>undefined\<close>, and \<open>opt_get\<close> for \<open>v?.k\<close>.
\<close>

definition property :: "jsval \<Rightarrow> string \<Rightarrow> jsval" where
  "property v k = (case v of
      JObj kvs \<Rightarrow> (case map_of kvs k of None \<Rightarrow> JUndefined | Some x \<Rightarrow> x)
    | _ \<Rightarrow> JUndefined)"

definition get :: "jsval \<Rightarrow> string \<Rightarrow> type_error + jsval" where
  "get v k = (if nullish v then Inl TypeError else Inr (property v k))"

definition opt_get :: "jsval \<Rightarrow> string \<Rightarrow> jsval" where
  "opt_get v k = (if nullish v then JUndefined else property v k)"

text \<open>Sequencing: the first exception ends the evaluation.\<close>

definition and_then ::
  "type_error + 'a \<Rightarrow> ('a \<Rightarrow> type_error + 'b) \<Rightarrow> type_error + 'b" where
  "and_then r k = (case r of Inl err \<Rightarrow> Inl err | Inr v \<Rightarrow> k v)"

text \<open>
  \<open>String(v)\<close> and \<open>Array.prototype.join\<close>. An array converts by joining its elements
  with a comma, \<open>null\<close> and \<open>undefined\<close> elements as the empty string. A parsed object
  converts to \<open>[object Object]\<close>, unless it has a property \<open>toString\<close> of its own: that
  property is not a function, and the conversion throws. The text of a number is given
  by \<open>nts\<close>, a function of the language and a parameter of the model.
\<close>

fun ToString :: "(number \<Rightarrow> string) \<Rightarrow> jsval \<Rightarrow> type_error + string"
  and join :: "(number \<Rightarrow> string) \<Rightarrow> string \<Rightarrow> jsval list \<Rightarrow> type_error + string" where
  "ToString nts JUndefined = Inr ''undefined''"
| "ToString nts JNull = Inr ''null''"
| "ToString nts (JBool b) = Inr (if b then ''true'' else ''false'')"
| "ToString nts (JNum n) = Inr (nts n)"
| "ToString nts (JStr s) = Inr s"
| "ToString nts (JArr xs) = join nts '','' xs"
| "ToString nts (JObj kvs) =
     (if ''toString'' \<in> fst ` set kvs then Inl TypeError else Inr ''[object Object]'')"
| "join nts sep [] = Inr ''''"
| "join nts sep (x # xs) =
     (case (if x = JUndefined \<or> x = JNull then Inr '''' else ToString nts x) of
        Inl e \<Rightarrow> Inl e
      | Inr s \<Rightarrow>
          (if xs = [] then Inr s
           else case join nts sep xs of Inl e \<Rightarrow> Inl e | Inr r \<Rightarrow> Inr (s @ sep @ r)))"

text \<open>\<open>Number(v)\<close>; \<open>stn\<close> reads a string as a number, a function of the language and a
  parameter of the model.\<close>

definition to_number :: "(string \<Rightarrow> number) \<Rightarrow> (number \<Rightarrow> string) \<Rightarrow> jsval \<Rightarrow> type_error + number" where
  "to_number stn nts v = (case v of
      JUndefined \<Rightarrow> Inr NaN
    | JNull \<Rightarrow> Inr (Fin 0)
    | JBool b \<Rightarrow> Inr (Fin (if b then 1 else 0))
    | JNum n \<Rightarrow> Inr n
    | JStr s \<Rightarrow> Inr (stn s)
    | JArr xs \<Rightarrow> and_then (ToString nts v) (\<lambda>s. Inr (stn s))
    | JObj kvs \<Rightarrow> and_then (ToString nts v) (\<lambda>s. Inr (stn s)))"

definition elements :: "jsval \<Rightarrow> jsval list" where
  "elements v = (case v of JArr xs \<Rightarrow> xs | _ \<Rightarrow> [])"

text \<open>The list the function finds in the response body \<open>raw\<close>: the body itself, or the
  first array under \<open>results\<close>, \<open>data\<close>, \<open>parking_signs\<close>, \<open>signs\<close>, or the empty list.\<close>

definition response_list :: "jsval \<Rightarrow> jsval list" where
  "response_list raw =
     (if isArray raw then elements raw
      else if isArray (opt_get raw ''results'') then elements (property raw ''results'')
      else if isArray (opt_get raw ''data'') then elements (property raw ''data'')
      else if isArray (opt_get raw ''parking_signs'') then elements (property raw ''parking_signs'')
      else if isArray (opt_get raw ''signs'') then elements (property raw ''signs'')
      else [])"

text \<open>The callback of \<open>list.map\<close>: the sign built from \<open>item\<close> at \<open>index\<close>, its statements
  in the source's order. The regulations are joined only when \<open>item.description\<close> is
  \<open>null\<close> or \<open>undefined\<close>.\<close>

definition toParkingSign ::
  "(string \<Rightarrow> number) \<Rightarrow> (number \<Rightarrow> string) \<Rightarrow> jsval \<Rightarrow> nat \<Rightarrow> type_error + jsval" where
  "toParkingSign stn nts item index =
     and_then (get item ''latitude'') (\<lambda>item_latitude.
     and_then (to_number stn nts (coalesce item_latitude (property item ''lat''))) (\<lambda>latitude.
     and_then (to_number stn nts (coalesce (property item ''longitude'') (property item ''lon'')))
       (\<lambda>longitude.
     and_then (to_number stn nts
             (coalesce (coalesce (property item ''distance'') (property item ''dist''))
                (JNum (Fin 0)))) (\<lambda>distance.
     and_then (ToString nts
             (coalesce (coalesce (property item ''street_name'') (property item ''street''))
                (JStr []))) (\<lambda>street_name.
     and_then (if nullish (property item ''description'') then
             (if isArray (property item ''regulations'')
              then and_then (join nts '' '' (elements (property item ''regulations'')))
                     (\<lambda>s. Inr (JStr s))
              else Inr (JStr []))
           else Inr (property item ''description'')) (\<lambda>description_or_regulations.
     and_then (ToString nts (coalesce description_or_regulations (JStr []))) (\<lambda>description.
     and_then (ToString nts
             (coalesce (coalesce (property item ''id'') (property item ''sign_id''))
                (JStr (nts latitude @ '','' @ nts longitude @ '','' @ nts (Fin (real index))))))
       (\<lambda>id.
     Inr (JObj
       [(''id'', JStr id),
        (''latitude'', JNum latitude),
        (''longitude'', JNum longitude),
        (''distance'', JNum distance),
        (''description'', JStr description),
        (''street_name'', JStr street_name),
        (''sign_type'', property item ''sign_type''),
        (''regulations'',
           if isArray (property item ''regulations'') then property item ''regulations''
           else JUndefined),
        (''borough'', property item ''borough''),
        (''created_at'', property item ''created_at''),
        (''updated_at'', property item ''updated_at'')])))))))))"

text \<open>\<open>Array.prototype.map\<close> with the index, ended by the first exception.\<close>

fun map_index ::
  "('a \<Rightarrow> nat \<Rightarrow> type_error + 'b) \<Rightarrow> 'a list \<Rightarrow> nat \<Rightarrow> type_error + 'b list" where
  "map_index f [] index = Inr []"
| "map_index f (item # items) index =
     and_then (f item index) (\<lambda>y. and_then (map_index f items (Suc index)) (\<lambda>ys. Inr (y # ys)))"

text \<open>\<open>getParkingSigns\<close> from the response body on.\<close>

definition getParkingSigns ::
  "(string \<Rightarrow> number) \<Rightarrow> (number \<Rightarrow> string) \<Rightarrow> jsval \<Rightarrow> type_error + jsval list" where
  "getParkingSigns stn nts raw = map_index (toParkingSign stn nts) (response_list raw) 0"

text \<open>Number conversions on a few values and a response body, for the examples.\<close>

definition stn_example :: "string \<Rightarrow> number" where
  "stn_example s = (if s = ''-73.9'' then Fin (-73.9) else NaN)"

definition nts_example :: "number \<Rightarrow> string" where
  "nts_example n = (if n = Fin 7 then ''7'' else ''NaN'')"

definition body_example :: jsval where
  "body_example =
     JObj [(''count'', JNum (Fin 1)),
           (''results'',
              JArr [JObj [(''lat'', JNum (Fin 40.7)), (''lon'', JStr ''-73.9''),
                          (''sign_id'', JNum (Fin 7)), (''street'', JStr ''Broadway'')]])]"

section \<open>Comparisons\<close>

lemma js_le_Fin [simp]: "js_le (Fin x) (Fin y) = (x \<le> y)"
  by (auto simp: js_le_def)

lemma js_gt_Fin [simp]: "js_gt (Fin x) (Fin y) = (y < x)"
  by (simp add: js_gt_def)

section \<open>The borough classifier at Times Square\<close>

text \<open>
  C1: the borough classifier is to return \<open>manhattan\<close> at the Times Square coordinate
  (latitude 40.7580, longitude -73.9855), the example point of the coordinate form. The
  code returns \<open>unknown\<close> there: the latitude is below the 40.7589 of the first test and
  above the 40.7394 of the second and third, and no later test matches.
\<close>

theorem times_square_unknown:
  "getBoroughFromCoordinates (Fin 40.7580) (Fin (-73.9855)) = ''unknown''"
  by (simp add: getBoroughFromCoordinates_def)

text \<open>The classifier at the five borough centres of the home page, in the order
  Manhattan, Brooklyn, Queens, Bronx, Staten Island: only Brooklyn gets its own label.\<close>

lemma borough_centroids:
  "getBoroughFromCoordinates (Fin 40.7831) (Fin (-73.9712)) = ''unknown''
   \<and> getBoroughFromCoordinates (Fin 40.6782) (Fin (-73.9442)) = ''brooklyn''
   \<and> getBoroughFromCoordinates (Fin 40.7282) (Fin (-73.7949)) = ''unknown''
   \<and> getBoroughFromCoordinates (Fin 40.8448) (Fin (-73.8648)) = ''manhattan''
   \<and> getBoroughFromCoordinates (Fin 40.5795) (Fin (-74.1502)) = ''brooklyn''"
  by (simp add: getBoroughFromCoordinates_def)

section \<open>The radius filter\<close>

lemma filter_by_positions:
  "filter keep items = map (nth items) (filter (\<lambda>k. keep (items ! k)) [0..<length items])"
proof -
  have "filter keep (map (nth items) [0..<length items])
          = map (nth items) (filter (keep \<circ> nth items) [0..<length items])"
    by (rule filter_map)
  then show ?thesis
    by (simp add: map_nth comp_def)
qed

lemma count_list_filter:
  "P x \<Longrightarrow> count_list (filter P xs) x = count_list xs x"
  by (induction xs) auto

text \<open>
  C2: the output of \<open>filterByRadius\<close> is the input read at exactly the positions whose
  distance is \<open><=\<close> the radius, in increasing position order, each position once. So
  every output record is within the radius (boundary included), every input record
  within the radius occurs in the output as often as in the input, the output is a
  subsequence of the input, and the empty input gives the empty output.
\<close>

theorem filterByRadius_exact:
  "filterByRadius items maxRadius =
      map (\<lambda>i. items ! i)
        (filter (\<lambda>i. js_le (distance (items ! i)) maxRadius) [0..<length items])
   \<and> (\<forall>x \<in> set (filterByRadius items maxRadius). js_le (distance x) maxRadius)
   \<and> (\<forall>x. js_le (distance x) maxRadius \<longrightarrow>
         count_list (filterByRadius items maxRadius) x = count_list items x)
   \<and> subseq (filterByRadius items maxRadius) items
   \<and> filterByRadius [] maxRadius = []"
proof (intro conjI)
  show "filterByRadius items maxRadius =
      map (\<lambda>i. items ! i)
        (filter (\<lambda>i. js_le (distance (items ! i)) maxRadius) [0..<length items])"
    unfolding filterByRadius_def by (rule filter_by_positions)
  show "\<forall>x \<in> set (filterByRadius items maxRadius). js_le (distance x) maxRadius"
    by (simp add: filterByRadius_def)
  show "\<forall>x. js_le (distance x) maxRadius \<longrightarrow>
         count_list (filterByRadius items maxRadius) x = count_list items x"
    by (simp add: filterByRadius_def count_list_filter)
  show "subseq (filterByRadius items maxRadius) items"
    by (simp add: filterByRadius_def)
  show "filterByRadius [] maxRadius = []"
    by (simp add: filterByRadius_def)
qed

text \<open>Three records at 100, 600 and 1200 metres and the radius 1000: the first two are
  kept; and a record at exactly the radius is kept.\<close>

theorem filterByRadius_exact_witness:
  "filterByRadius [\<lparr>distance = Fin 100\<rparr>, \<lparr>distance = Fin 600\<rparr>, \<lparr>distance = Fin 1200\<rparr>] (Fin 1000)
     = [\<lparr>distance = Fin 100\<rparr>, \<lparr>distance = Fin 600\<rparr>]
   \<and> js_le (distance \<lparr>distance = Fin 600\<rparr>) (Fin 1000)
   \<and> count_list (filterByRadius [\<lparr>distance = Fin 500\<rparr>, \<lparr>distance = Fin 500\<rparr>] (Fin 500))
        \<lparr>distance = Fin 500\<rparr> = 2"
  using filterByRadius_exact
    [of "[\<lparr>distance = Fin 100\<rparr>, \<lparr>distance = Fin 600\<rparr>, \<lparr>distance = Fin 1200\<rparr>]" "Fin 1000"]
    filterByRadius_exact [of "[\<lparr>distance = Fin 500\<rparr>, \<lparr>distance = Fin 500\<rparr>]" "Fin 500"]
  by (simp add: filterByRadius_def)

section \<open>The distance sort\<close>

lemma js_lt_irrefl [simp]: "\<not> js_lt a a"
  by (cases a) auto


lemma js_le_trans: "js_le a b \<Longrightarrow> js_le b c \<Longrightarrow> js_le a c"
  by (cases a; cases b; cases c) (auto simp: js_le_def)

lemma js_lt_imp_le: "js_lt a b \<Longrightarrow> js_le a b"
  by (cases a; cases b) (auto simp: js_le_def)

lemma by_distance_gt:
  "distance a \<noteq> NaN \<Longrightarrow> distance b \<noteq> NaN \<Longrightarrow>
   js_gt (SortCompare by_distance a b) (Fin 0) = js_lt (distance b) (distance a)"
  by (cases "distance a"; cases "distance b")
     (auto simp: SortCompare_def by_distance_def js_gt_def isNaN_def Let_def)

lemma set_sort_insert [simp]: "set (sort_insert c x ys) = insert x (set ys)"
  by (induction ys) auto

lemma length_sort_insert [simp]: "length (sort_insert c x ys) = Suc (length ys)"
  by (induction ys) auto

lemma set_Array_sort [simp]: "set (Array_sort c xs) = set xs"
  by (induction xs) (auto simp: Array_sort_def)

lemma length_Array_sort [simp]: "length (Array_sort c xs) = length xs"
  by (induction xs) (auto simp: Array_sort_def)

lemma sorted_sort_insert:
  assumes "sorted_wrt le_dist ys" "distance x \<noteq> NaN" "\<forall>y \<in> set ys. distance y \<noteq> NaN"
  shows "sorted_wrt le_dist (sort_insert by_distance x ys)"
  using assms
proof (induction ys)
  case Nil
  then show ?case by simp
next
  case (Cons y ys)
  show ?case
  proof (cases "js_lt (distance y) (distance x)")
    case True
    with Cons show ?thesis
      by (auto simp: by_distance_gt js_lt_imp_le)
  next
    case False
    then have xy: "le_dist x y" using Cons.prems by (simp add: js_le_def)
    have "\<forall>z \<in> set ys. le_dist x z"
      using Cons.prems(1) xy js_le_trans by fastforce
    with False xy Cons.prems show ?thesis
      by (simp add: by_distance_gt)
  qed
qed

lemma sorted_Array_sort:
  "\<forall>x \<in> set xs. distance x \<noteq> NaN \<Longrightarrow> sorted_wrt le_dist (Array_sort by_distance xs)"
proof (induction xs)
  case Nil
  then show ?case by (simp add: Array_sort_def)
next
  case (Cons x xs)
  then have "sorted_wrt le_dist (sort_insert by_distance x (Array_sort by_distance xs))"
    by (intro sorted_sort_insert) auto
  then show ?case by (simp add: Array_sort_def)
qed

lemma filter_sort_insert:
  assumes "distance x \<noteq> NaN" "\<forall>y \<in> set ys. distance y \<noteq> NaN"
  shows "filter (\<lambda>z. distance z = d) (sort_insert by_distance x ys)
           = filter (\<lambda>z. distance z = d) (x # ys)"
  using assms
proof (induction ys)
  case Nil
  then show ?case by simp
next
  case (Cons y ys)
  show ?case
  proof (cases "js_lt (distance y) (distance x)")
    case True
    then have "distance y \<noteq> distance x" by auto
    with True Cons show ?thesis
      by (auto simp: by_distance_gt)
  next
    case False
    with Cons.prems show ?thesis by (simp add: by_distance_gt)
  qed
qed

lemma filter_Array_sort:
  "\<forall>x \<in> set xs. distance x \<noteq> NaN \<Longrightarrow>
   filter (\<lambda>z. distance z = d) (Array_sort by_distance xs) = filter (\<lambda>z. distance z = d) xs"
proof (induction xs)
  case Nil
  then show ?case by (simp add: Array_sort_def)
next
  case (Cons x xs)
  have "filter (\<lambda>z. distance z = d) (sort_insert by_distance x (Array_sort by_distance xs))
          = filter (\<lambda>z. distance z = d) (x # Array_sort by_distance xs)"
    using Cons.prems by (intro filter_sort_insert) auto
  with Cons show ?case by (simp add: Array_sort_def)
qed

text \<open>
  C6 (as stated): for every list of records with attached distances the output of
  \<open>sortByDistance\<close> is ascending at every adjacent pair of positions. It is not when a
  distance is \<open>NaN\<close>: on the records at 1 and at \<open>NaN\<close> the comparator gives \<open>NaN\<close> both
  ways, the order stays, and \<open>1 <= NaN\<close> is false.
\<close>

theorem sortByDistance_nan_not_ascending:
  "sortByDistance [\<lparr>distance = Fin 1\<rparr>, \<lparr>distance = NaN\<rparr>]
     = [\<lparr>distance = Fin 1\<rparr>, \<lparr>distance = NaN\<rparr>]
   \<and> \<not> js_le (distance \<lparr>distance = Fin 1\<rparr>) (distance \<lparr>distance = NaN\<rparr>)"
  by (simp add: sortByDistance_def Array_sort_def by_distance_def SortCompare_def isNaN_def
        js_gt_def js_le_def)

text \<open>
  C6 (amended): for every list of records whose distances are all numbers other than
  \<open>NaN\<close>, the output of \<open>sortByDistance\<close> is ascending at every adjacent pair of
  positions, and it is stable: for every distance value, the records with that
  distance stand in the output in their input order (so the output has the input's
  records, each as often as the input).
\<close>

theorem sortByDistance_sorted_stable:
  assumes "\<forall>x \<in> set items. distance x \<noteq> NaN"
  shows "(\<forall>i. Suc i < length (sortByDistance items) \<longrightarrow>
            js_le (distance (sortByDistance items ! i)) (distance (sortByDistance items ! Suc i)))
       \<and> (\<forall>d. filter (\<lambda>z. distance z = d) (sortByDistance items)
                = filter (\<lambda>z. distance z = d) items)
       \<and> length (sortByDistance items) = length items"
proof (intro conjI allI impI)
  fix i assume i: "Suc i < length (sortByDistance items)"
  have "sorted_wrt le_dist (sortByDistance items)"
    using assms by (simp add: sortByDistance_def sorted_Array_sort)
  from sorted_wrt_nth_less [OF this _ i, of i]
  show "js_le (distance (sortByDistance items ! i)) (distance (sortByDistance items ! Suc i))"
    by simp
next
  fix d show "filter (\<lambda>z. distance z = d) (sortByDistance items) = filter (\<lambda>z. distance z = d) items"
    using assms by (simp add: sortByDistance_def filter_Array_sort)
next
  show "length (sortByDistance items) = length items"
    by (simp add: sortByDistance_def)
qed

text \<open>Four labelled records, two distances, each twice.\<close>

theorem sortByDistance_sorted_stable_witness:
  "distance \<lparr>distance = Fin 3, \<dots> = ''a''\<rparr> \<noteq> NaN
   \<and> sortByDistance
        [\<lparr>distance = Fin 3, \<dots> = ''a''\<rparr>, \<lparr>distance = Fin 1, \<dots> = ''b''\<rparr>,
         \<lparr>distance = Fin 3, \<dots> = ''c''\<rparr>, \<lparr>distance = Fin 1, \<dots> = ''d''\<rparr>]
      = [\<lparr>distance = Fin 1, \<dots> = ''b''\<rparr>, \<lparr>distance = Fin 1, \<dots> = ''d''\<rparr>,
         \<lparr>distance = Fin 3, \<dots> = ''a''\<rparr>, \<lparr>distance = Fin 3, \<dots> = ''c''\<rparr>]
   \<and> js_le (distance \<lparr>distance = Fin 1, \<dots> = ''d''\<rparr>) (distance \<lparr>distance = Fin 3, \<dots> = ''a''\<rparr>)"
  using sortByDistance_sorted_stable
    [of "[\<lparr>distance = Fin 3, \<dots> = ''a''\<rparr>, \<lparr>distance = Fin 1, \<dots> = ''b''\<rparr>,
          \<lparr>distance = Fin 3, \<dots> = ''c''\<rparr>, \<lparr>distance = Fin 1, \<dots> = ''d''\<rparr>]"]
  by (simp add: sortByDistance_def Array_sort_def by_distance_def SortCompare_def isNaN_def)

section \<open>The filter and the sort leave their input alone\<close>

text \<open>
  C8: neither \<open>filterByRadius\<close> nor \<open>sortByDistance\<close> mutates its input. In the store,
  for every valid input address, each call returns an address that was not allocated
  before the call (so not the input's), every array allocated before the call, the
  input among them, has its old contents after the call, and the new array holds the
  sorted, respectively filtered, records.
\<close>

theorem no_input_mutation:
  assumes "items < length s"
  shows "(\<exists>s' r. sortByDistance_store s items = Some (s', r)
            \<and> r \<noteq> items \<and> \<not> r < length s \<and> r < length s'
            \<and> (\<forall>a < length s. s' ! a = s ! a)
            \<and> s' ! items = s ! items
            \<and> s' ! r = sortByDistance (s ! items))
       \<and> (\<exists>s' r. filterByRadius_store s items maxRadius = Some (s', r)
            \<and> r \<noteq> items \<and> \<not> r < length s \<and> r < length s'
            \<and> (\<forall>a < length s. s' ! a = s ! a)
            \<and> s' ! items = s ! items
            \<and> s' ! r = filterByRadius (s ! items) maxRadius)"
  using assms
  by (auto simp: sortByDistance_store_def filterByRadius_store_def alloc_def sort_in_place_def
        sortByDistance_def filterByRadius_def nth_append)

text \<open>A store with one array of two records, sorted and filtered.\<close>

theorem no_input_mutation_witness:
  "(0::nat) < length [[\<lparr>distance = Fin 3\<rparr>, \<lparr>distance = Fin 1\<rparr>]]
   \<and> sortByDistance_store [[\<lparr>distance = Fin 3\<rparr>, \<lparr>distance = Fin 1\<rparr>]] 0
       = Some ([[\<lparr>distance = Fin 3\<rparr>, \<lparr>distance = Fin 1\<rparr>],
                [\<lparr>distance = Fin 1\<rparr>, \<lparr>distance = Fin 3\<rparr>]], 1)
   \<and> filterByRadius_store [[\<lparr>distance = Fin 3\<rparr>, \<lparr>distance = Fin 1\<rparr>]] 0 (Fin 2)
       = Some ([[\<lparr>distance = Fin 3\<rparr>, \<lparr>distance = Fin 1\<rparr>], [\<lparr>distance = Fin 1\<rparr>]], 1)"
  using no_input_mutation [of 0 "[[\<lparr>distance = Fin 3\<rparr>, \<lparr>distance = Fin 1\<rparr>]]" "Fin 2"]
  by (simp add: sortByDistance_store_def filterByRadius_store_def alloc_def sort_in_place_def
        Array_sort_def by_distance_def SortCompare_def isNaN_def)

section \<open>The nearest meter\<close>

lemma loop_Some_not_None:
  "getMeterRate_loop cd p raw (Some b) \<noteq> None"
  by (induction raw arbitrary: b) (auto simp: Let_def)





lemma loop_result_from_input:
  "getMeterRate_loop cd p raw best = Some r \<Longrightarrow>
   best = Some r \<or> (\<exists>i < length raw. r = (raw ! i, dist_to cd p (raw ! i)))"
proof (induction raw arbitrary: best)
  case Nil
  then show ?case by simp
next
  case (Cons z raw)
  let ?best' = "case best of None \<Rightarrow> Some (z, dist_to cd p z)
                | Some b \<Rightarrow> if js_lt (dist_to cd p z) (snd b) then Some (z, dist_to cd p z) else best"
  have "getMeterRate_loop cd p raw ?best' = Some r"
    using Cons.prems by (simp add: Let_def)
  from Cons.IH [OF this] show ?case
  proof
    assume "?best' = Some r"
    then have "best = Some r \<or> r = ((z # raw) ! 0, dist_to cd p ((z # raw) ! 0))"
      by (auto split: option.splits if_splits)
    then show ?thesis by auto
  next
    assume "\<exists>i < length raw. r = (raw ! i, dist_to cd p (raw ! i))"
    then obtain i where "i < length raw" "r = (raw ! i, dist_to cd p (raw ! i))" by blast
    then have "Suc i < length (z # raw) \<and> r = ((z # raw) ! Suc i, dist_to cd p ((z # raw) ! Suc i))"
      by simp
    then show ?thesis by blast
  qed
qed




text \<open>
  C4: \<open>getMeterRate\<close> throws its not-found error exactly when the list of zones is
  empty. On a non-empty list it returns one meter, built from a zone of the list and
  that zone's computed distance, whatever the distance function gives: there is no
  cutoff.
\<close>

theorem getMeterRate_not_found_iff_empty:
  "getMeterRate cd [] p = Inl (Error ''No meter found'')
   \<and> (\<exists>i < length (z # zs).
         getMeterRate cd (z # zs) p
           = Inr (meterRateOf ((z # zs) ! i) (dist_to cd p ((z # zs) ! i))))
   \<and> isl (getMeterRate cd raw p) = (raw = [])"
proof (intro conjI)
  show "getMeterRate cd [] p = Inl (Error ''No meter found'')"
    by (simp add: getMeterRate_def)
  have found: "\<exists>i < length (y # ys).
         getMeterRate cd (y # ys) p
           = Inr (meterRateOf ((y # ys) ! i) (dist_to cd p ((y # ys) ! i)))" for y ys
  proof -
    have "getMeterRate_loop cd p (y # ys) None \<noteq> None"
      by (simp add: Let_def loop_Some_not_None)
    then obtain r where r: "getMeterRate_loop cd p (y # ys) None = Some r" by blast
    from loop_result_from_input [OF this]
    obtain i where "i < length (y # ys)" "r = ((y # ys) ! i, dist_to cd p ((y # ys) ! i))"
      by blast
    then show ?thesis by (auto simp: getMeterRate_def r simp del: getMeterRate_loop.simps)
  qed
  from found show "\<exists>i < length (z # zs).
         getMeterRate cd (z # zs) p
           = Inr (meterRateOf ((z # zs) ! i) (dist_to cd p ((z # zs) ! i)))" .
  show "isl (getMeterRate cd raw p) = (raw = [])"
  proof (cases raw)
    case Nil
    then show ?thesis by (simp add: getMeterRate_def)
  next
    case (Cons y ys)
    with found [of y ys] show ?thesis by auto
  qed
qed

section \<open>The search history\<close>

lemma distinct_after_add:
  assumes "distinct (map query h)"
  shows "distinct (map query (take 20 (\<lparr>item_id = u, query = q, location = loc, timestamp = n,
                       item_type = ty\<rparr> # filter (\<lambda>item. query item \<noteq> q) h)))"
proof -
  let ?new = "\<lparr>item_id = u, query = q, location = loc, timestamp = n, item_type = ty\<rparr>"
  have "distinct (map query (filter (\<lambda>item. query item \<noteq> q) h))"
    using assms by (rule distinct_map_filter)
  moreover have "q \<notin> set (map query (filter (\<lambda>item. query item \<noteq> q) h))"
    by auto
  ultimately have "distinct (map query (?new # filter (\<lambda>item. query item \<noteq> q) h))"
    by simp
  then have "distinct (take 20 (map query (?new # filter (\<lambda>item. query item \<noteq> q) h)))"
    by (rule distinct_take)
  then show ?thesis by (simp only: take_map)
qed

lemma reachable_distinct:
  "reachable s \<Longrightarrow> distinct (map query (getSearchHistory s)) \<and> length (getSearchHistory s) \<le> 20"
proof (induction rule: reachable.induct)
  case (fresh s)
  then show ?case by (simp add: getSearchHistory_def)
next
  case (added s randomUUID now q loc ty)
  show ?case
  proof (cases "window_defined s")
    case True
    then show ?thesis
      using added.IH distinct_after_add [of "getSearchHistory s"]
      by (simp add: addToSearchHistory_def getSearchHistory_def Let_def)
  next
    case False
    with added.IH show ?thesis by (simp add: addToSearchHistory_def)
  qed
next
  case (cleared s)
  then show ?case by (simp add: clearSearchHistory_def getSearchHistory_def)
qed

text \<open>
  C9: after any call to \<open>addToSearchHistory\<close> (in a browser, in any state the
  application reaches), the stored search history has at most 20 items, the new item is
  first, followed by the earlier items with another query in their earlier order, and
  no two stored items have the same query.
\<close>

theorem addToSearchHistory_invariant:
  assumes "reachable s" and "window_defined s"
  shows "length (getSearchHistory (addToSearchHistory randomUUID now q loc ty s)) \<le> 20
       \<and> getSearchHistory (addToSearchHistory randomUUID now q loc ty s)
           = \<lparr>item_id = randomUUID, query = q, location = loc, timestamp = now, item_type = ty\<rparr>
             # take 19 (filter (\<lambda>item. query item \<noteq> q) (getSearchHistory s))
       \<and> distinct (map query (getSearchHistory (addToSearchHistory randomUUID now q loc ty s)))"
proof -
  have d: "distinct (map query (getSearchHistory s))"
    using assms(1) reachable_distinct by blast
  have eq: "getSearchHistory (addToSearchHistory randomUUID now q loc ty s)
          = take 20 (\<lparr>item_id = randomUUID, query = q, location = loc, timestamp = now,
                       item_type = ty\<rparr> # filter (\<lambda>item. query item \<noteq> q) (getSearchHistory s))"
    using assms(2) by (simp add: addToSearchHistory_def getSearchHistory_def Let_def)
  show ?thesis
    using distinct_after_add [OF d, of randomUUID q loc now ty]
    unfolding eq by (simp add: numeral_eq_Suc)
qed

text \<open>Queries \<open>a\<close>, \<open>b\<close>, then \<open>a\<close> again: the history is \<open>a\<close>, \<open>b\<close>.\<close>

theorem addToSearchHistory_invariant_witness:
  "reachable (addToSearchHistory ''u2'' ''t2'' ''b'' loc0 Address
       (addToSearchHistory ''u1'' ''t1'' ''a'' loc0 Address
          \<lparr>window_defined = True, search_history = None\<rparr>))
   \<and> window_defined (addToSearchHistory ''u2'' ''t2'' ''b'' loc0 Address
       (addToSearchHistory ''u1'' ''t1'' ''a'' loc0 Address
          \<lparr>window_defined = True, search_history = None\<rparr>))
   \<and> map query (getSearchHistory (addToSearchHistory ''u3'' ''t3'' ''a'' loc0 Coordinates
       (addToSearchHistory ''u2'' ''t2'' ''b'' loc0 Address
       (addToSearchHistory ''u1'' ''t1'' ''a'' loc0 Address
          \<lparr>window_defined = True, search_history = None\<rparr>)))) = [''a'', ''b'']"
proof -
  let ?s0 = "\<lparr>window_defined = True, search_history = None\<rparr>"
  let ?s2 = "addToSearchHistory ''u2'' ''t2'' ''b'' loc0 Address
       (addToSearchHistory ''u1'' ''t1'' ''a'' loc0 Address ?s0)"
  have r: "reachable ?s2"
    by (intro reachable.added reachable.fresh) simp
  have w: "window_defined ?s2"
    by (simp add: addToSearchHistory_def Let_def)
  from addToSearchHistory_invariant [OF r w, of "''u3''" "''t3''" "''a''" loc0 Coordinates] r w
  show ?thesis
    by (simp add: addToSearchHistory_def getSearchHistory_def Let_def)
qed

section \<open>The radius validation\<close>

lemma isValidRadius_iff:
  "isValidRadius parseFloat radius
     = (\<exists>x. to_num parseFloat radius = Fin x \<and> 0 < x \<and> x \<le> 5000)"
  by (cases "to_num parseFloat radius")
     (auto simp: isValidRadius_def isNaN_def js_gt_def js_le_def Let_def)

text \<open>
  C7: \<open>isValidRadius\<close> accepts a radius exactly when its numeric value (a string is
  read by \<open>parseFloat\<close>) is a number strictly greater than 0 and at most 5000. In the
  coordinate form with the radius shown, a radius that is not accepted stops the
  submission with a radius error before any callback is called, so no search starts;
  and every radius the form passes on is a number in that range.
\<close>

theorem radius_validation:
  "isValidRadius parseFloat radius
     = (\<exists>x. to_num parseFloat radius = Fin x \<and> 0 < x \<and> x \<le> 5000)
   \<and> (showRadius f \<and> \<not> isValidRadius parseFloat (Str (radius_text f))
        \<longrightarrow> snd (handleSubmit parseFloat f) = []
            \<and> radius_error (fst (handleSubmit parseFloat f)) \<noteq> None)
   \<and> (\<forall>r. OnRadiusChange r \<in> set (snd (handleSubmit parseFloat f))
        \<longrightarrow> (\<exists>x. r = Fin x \<and> 0 < x \<and> x \<le> 5000))"
proof (intro conjI)
  show "isValidRadius parseFloat radius
     = (\<exists>x. to_num parseFloat radius = Fin x \<and> 0 < x \<and> x \<le> 5000)"
    by (rule isValidRadius_iff)
  show "showRadius f \<and> \<not> isValidRadius parseFloat (Str (radius_text f))
        \<longrightarrow> snd (handleSubmit parseFloat f) = []
            \<and> radius_error (fst (handleSubmit parseFloat f)) \<noteq> None"
    by (simp add: handleSubmit_def validateInputs_def Let_def)
  show "\<forall>r. OnRadiusChange r \<in> set (snd (handleSubmit parseFloat f))
        \<longrightarrow> (\<exists>x. r = Fin x \<and> 0 < x \<and> x \<le> 5000)"
  proof (intro allI impI)
    fix r assume "OnRadiusChange r \<in> set (snd (handleSubmit parseFloat f))"
    then have "r = parseFloat (radius_text f)"
      and "isValidRadius parseFloat (Str (radius_text f))"
      by (auto simp: handleSubmit_def validateInputs_def Let_def split: if_splits)
    then show "\<exists>x. r = Fin x \<and> 0 < x \<and> x \<le> 5000"
      by (simp add: isValidRadius_iff to_num_def)
  qed
qed

text \<open>The bounds, and the form with the radius 5001 and with the radius 500.\<close>

theorem radius_validation_witness:
  "isValidRadius parse_example (Num (Fin 5000))
   \<and> \<not> isValidRadius parse_example (Num (Fin 5000.5))
   \<and> \<not> isValidRadius parse_example (Num (Fin 0))
   \<and> \<not> isValidRadius parse_example (Num NaN)
   \<and> \<not> isValidRadius parse_example (Str ''Infinity'')
   \<and> showRadius (form_example ''5001'')
   \<and> \<not> isValidRadius parse_example (Str (radius_text (form_example ''5001'')))
   \<and> snd (handleSubmit parse_example (form_example ''5001'')) = []
   \<and> OnRadiusChange (Fin 500) \<in> set (snd (handleSubmit parse_example (form_example ''500'')))"
  using radius_validation [of parse_example "Num (Fin 5000)" "form_example ''5001''"]
    radius_validation [of parse_example "Num (Fin 5000.5)" "form_example ''500''"]
  by (simp add: isValidRadius_def isValidLatitude_def isValidLongitude_def to_num_def
        parse_example_def form_example_def handleSubmit_def validateInputs_def Let_def
        isNaN_def js_gt_def js_ge_def js_le_def trim_def white_space_def)

section \<open>The parking signs of a response body\<close>

lemma and_then_Inr_iff: "and_then m f = Inr y \<longleftrightarrow> (\<exists>x. m = Inr x \<and> f x = Inr y)"
  by (cases m) (auto simp: and_then_def)

lemma map_index_Inr:
  "map_index f xs i = Inr ys \<Longrightarrow>
   length ys = length xs \<and> (\<forall>j < length xs. f (xs ! j) (i + j) = Inr (ys ! j))"
proof (induction xs arbitrary: i ys)
  case Nil
  then show ?case by simp
next
  case (Cons x xs)
  from Cons.prems obtain y ys' where y: "f x i = Inr y"
    and rest: "map_index f xs (Suc i) = Inr ys'" and ys: "ys = y # ys'"
    by (auto simp: and_then_Inr_iff)
  from Cons.IH [OF rest] have len: "length ys' = length xs"
    and nth: "\<forall>j < length xs. f (xs ! j) (Suc i + j) = Inr (ys' ! j)" by auto
  show ?case
  proof (intro conjI allI impI)
    show "length ys = length (x # xs)" using len ys by simp
    fix j assume "j < length (x # xs)"
    then show "f ((x # xs) ! j) (i + j) = Inr (ys ! j)"
      using y nth ys by (cases j) auto
  qed
qed

lemma toParkingSign_fields:
  assumes "toParkingSign stn nts item index = Inr sign"
  shows "typeof (property sign ''id'') = ''string''
       \<and> typeof (property sign ''latitude'') = ''number''
       \<and> typeof (property sign ''longitude'') = ''number''
       \<and> typeof (property sign ''distance'') = ''number''
       \<and> (nullish (property item ''distance'') \<and> nullish (property item ''dist'')
            \<longrightarrow> property sign ''distance'' = JNum (Fin 0))"
  using assms
  by (auto simp: toParkingSign_def and_then_Inr_iff property_def typeof_def coalesce_def
        to_number_def)

text \<open>
  C10: if the response body is neither an array nor carries an array under \<open>results\<close>,
  \<open>data\<close>, \<open>parking_signs\<close> or \<open>signs\<close>, \<open>getParkingSigns\<close> returns the empty list and
  does not throw. Whenever it returns, it returns one sign per item of the list, and
  every sign has an \<open>id\<close> of type string and a \<open>latitude\<close>, \<open>longitude\<close> and \<open>distance\<close> of
  type number; the \<open>distance\<close> is 0 when the item has neither \<open>distance\<close> nor \<open>dist\<close>.
\<close>

theorem getParkingSigns_shape:
  "(\<not> isArray raw \<and> \<not> isArray (opt_get raw ''results'') \<and> \<not> isArray (opt_get raw ''data'')
      \<and> \<not> isArray (opt_get raw ''parking_signs'') \<and> \<not> isArray (opt_get raw ''signs'')
     \<longrightarrow> getParkingSigns stn nts raw = Inr [])
   \<and> (getParkingSigns stn nts raw = Inr signs
     \<longrightarrow> length signs = length (response_list raw)
       \<and> (\<forall>i < length signs.
             typeof (property (signs ! i) ''id'') = ''string''
           \<and> typeof (property (signs ! i) ''latitude'') = ''number''
           \<and> typeof (property (signs ! i) ''longitude'') = ''number''
           \<and> typeof (property (signs ! i) ''distance'') = ''number''
           \<and> (nullish (property (response_list raw ! i) ''distance'')
                \<and> nullish (property (response_list raw ! i) ''dist'')
                \<longrightarrow> property (signs ! i) ''distance'' = JNum (Fin 0))))"
proof (intro conjI impI)
  assume "\<not> isArray raw \<and> \<not> isArray (opt_get raw ''results'') \<and> \<not> isArray (opt_get raw ''data'')
      \<and> \<not> isArray (opt_get raw ''parking_signs'') \<and> \<not> isArray (opt_get raw ''signs'')"
  then have "response_list raw = []"
    by (simp add: response_list_def)
  then show "getParkingSigns stn nts raw = Inr []"
    by (simp add: getParkingSigns_def)
next
  assume ok: "getParkingSigns stn nts raw = Inr signs"
  then have m: "map_index (toParkingSign stn nts) (response_list raw) 0 = Inr signs"
    by (simp add: getParkingSigns_def)
  from map_index_Inr [OF m] show "length signs = length (response_list raw)"
    by simp
next
  assume ok: "getParkingSigns stn nts raw = Inr signs"
  then have m: "map_index (toParkingSign stn nts) (response_list raw) 0 = Inr signs"
    by (simp add: getParkingSigns_def)
  from map_index_Inr [OF m]
  have len: "length signs = length (response_list raw)"
    and each: "\<forall>j < length (response_list raw).
                 toParkingSign stn nts (response_list raw ! j) (0 + j) = Inr (signs ! j)"
    by auto
  show "\<forall>i < length signs.
             typeof (property (signs ! i) ''id'') = ''string''
           \<and> typeof (property (signs ! i) ''latitude'') = ''number''
           \<and> typeof (property (signs ! i) ''longitude'') = ''number''
           \<and> typeof (property (signs ! i) ''distance'') = ''number''
           \<and> (nullish (property (response_list raw ! i) ''distance'')
                \<and> nullish (property (response_list raw ! i) ''dist'')
                \<longrightarrow> property (signs ! i) ''distance'' = JNum (Fin 0))"
  proof (intro allI impI)
    fix i assume "i < length signs"
    with len each
    have "toParkingSign stn nts (response_list raw ! i) (0 + i) = Inr (signs ! i)"
      by simp
    then show "typeof (property (signs ! i) ''id'') = ''string''
           \<and> typeof (property (signs ! i) ''latitude'') = ''number''
           \<and> typeof (property (signs ! i) ''longitude'') = ''number''
           \<and> typeof (property (signs ! i) ''distance'') = ''number''
           \<and> (nullish (property (response_list raw ! i) ''distance'')
                \<and> nullish (property (response_list raw ! i) ''dist'')
                \<longrightarrow> property (signs ! i) ''distance'' = JNum (Fin 0))"
      by (rule toParkingSign_fields)
  qed
qed

text \<open>An error body and a text body give the empty list; a body with one item under
  \<open>results\<close> gives one sign, with the distance 0; an array holding \<open>null\<close> throws.\<close>

theorem getParkingSigns_shape_witness:
  "\<not> isArray (JObj [(''error'', JStr ''down'')])
   \<and> \<not> isArray (opt_get (JObj [(''error'', JStr ''down'')]) ''results'')
   \<and> getParkingSigns stn_example nts_example (JObj [(''error'', JStr ''down'')]) = Inr []
   \<and> getParkingSigns stn_example nts_example (JStr ''Bad Gateway'') = Inr []
   \<and> getParkingSigns stn_example nts_example body_example
      = Inr [JObj [(''id'', JStr ''7''), (''latitude'', JNum (Fin 40.7)),
                   (''longitude'', JNum (Fin (-73.9))), (''distance'', JNum (Fin 0)),
                   (''description'', JStr []), (''street_name'', JStr ''Broadway''),
                   (''sign_type'', JUndefined), (''regulations'', JUndefined),
                   (''borough'', JUndefined), (''created_at'', JUndefined),
                   (''updated_at'', JUndefined)]]
   \<and> nullish (property (response_list body_example ! 0) ''distance'')
   \<and> getParkingSigns stn_example nts_example (JArr [JNull]) = Inl TypeError"
  using getParkingSigns_shape [of "JObj [(''error'', JStr ''down'')]" stn_example nts_example "[]"]
    getParkingSigns_shape [of body_example stn_example nts_example
      "[JObj [(''id'', JStr ''7''), (''latitude'', JNum (Fin 40.7)),
                   (''longitude'', JNum (Fin (-73.9))), (''distance'', JNum (Fin 0)),
                   (''description'', JStr []), (''street_name'', JStr ''Broadway''),
                   (''sign_type'', JUndefined), (''regulations'', JUndefined),
                   (''borough'', JUndefined), (''created_at'', JUndefined),
                   (''updated_at'', JUndefined)]]"]
  by (simp add: getParkingSigns_def response_list_def isArray_def opt_get_def property_def
        nullish_def elements_def toParkingSign_def and_then_def get_def to_number_def coalesce_def
        stn_example_def nts_example_def body_example_def)

section \<open>The haversine formula on real numbers\<close>

lemma atan2_nonneg: "0 \<le> y \<Longrightarrow> 0 \<le> x \<Longrightarrow> 0 \<le> atan2 y x \<and> atan2 y x \<le> pi / 2"
  using arctan_ubound [of "y / x"]
  by (auto simp: atan2_def less_eq_real_def)

lemma cos_lat_nonneg:
  assumes "- 90 \<le> lat" "lat \<le> 90"
  shows "0 \<le> cos ((lat * pi) / 180)"
proof (rule cos_ge_zero)
  have "(- 90) * pi \<le> lat * pi" "lat * pi \<le> 90 * pi"
    using assms pi_ge_zero by (intro mult_right_mono; simp)+
  then show "- (pi / 2) \<le> lat * pi / 180" "lat * pi / 180 \<le> pi / 2"
    by simp_all
qed

lemma sin_square_range: "0 \<le> sin (x::real) * sin x \<and> sin x * sin x \<le> 1"
proof -
  have "(sin x)\<^sup>2 + (cos x)\<^sup>2 = 1" by (rule sin_cos_squared_add)
  moreover have "0 \<le> (cos x)\<^sup>2" "0 \<le> (sin x)\<^sup>2" by simp_all
  ultimately have "0 \<le> (sin x)\<^sup>2 \<and> (sin x)\<^sup>2 \<le> 1" by linarith
  then show ?thesis by (simp add: power2_eq_square)
qed

lemma cos_prod_le: "cos (x::real) * cos y \<le> cos ((y - x) / 2) * cos ((y - x) / 2)"
proof -
  define z where "z = (y - x) / 2"
  have yx: "y - x = 2 * z" by (simp add: z_def)
  have "2 * (cos x * cos y) = cos (y - x) + cos (y + x)"
    by (simp add: cos_add cos_diff)
  also have "\<dots> \<le> cos (y - x) + 1" by simp
  also have "\<dots> = 2 * (cos z * cos z)"
    unfolding yx using cos_double_cos [of z] by (simp add: power2_eq_square)
  finally show ?thesis by (simp add: z_def)
qed

lemma haversine_a_range:
  assumes "- 90 \<le> lat1" "lat1 \<le> 90" "- 90 \<le> lat2" "lat2 \<le> 90"
  shows "0 \<le> haversine_a lat1 lon1 lat2 lon2 \<and> haversine_a lat1 lon1 lat2 lon2 \<le> 1"
proof -
  define p1 where "p1 = (lat1 * pi) / 180"
  define p2 where "p2 = (lat2 * pi) / 180"
  define dp where "dp = ((lat2 - lat1) * pi) / 180"
  define s where "s = sin (((lon2 - lon1) * pi) / 180 / 2) * sin (((lon2 - lon1) * pi) / 180 / 2)"
  have cc: "0 \<le> cos p1 * cos p2"
    unfolding p1_def p2_def using assms by (intro mult_nonneg_nonneg cos_lat_nonneg)
  have s: "0 \<le> s" "s \<le> 1"
    unfolding s_def using sin_square_range by blast+
  have dp: "dp = p2 - p1"
    by (simp add: dp_def p1_def p2_def field_simps)
  have "cos p1 * cos p2 * s \<le> cos p1 * cos p2 * 1"
    using cc s by (intro mult_left_mono)
  also have "\<dots> \<le> cos (dp / 2) * cos (dp / 2)"
    using cos_prod_le [of p1 p2] by (simp add: dp)
  finally have up: "cos p1 * cos p2 * s \<le> cos (dp / 2) * cos (dp / 2)" .
  have one: "sin (dp / 2) * sin (dp / 2) + cos (dp / 2) * cos (dp / 2) = 1"
    using sin_cos_squared_add [of "dp / 2"] by (simp add: power2_eq_square)
  have lo: "0 \<le> cos p1 * cos p2 * s"
    using cc s by simp
  have sq: "0 \<le> sin (dp / 2) * sin (dp / 2)" by simp
  have a: "haversine_a lat1 lon1 lat2 lon2 = sin (dp / 2) * sin (dp / 2) + cos p1 * cos p2 * s"
    by (simp add: haversine_a_def Let_def p1_def p2_def dp_def s_def mult.assoc)
  show ?thesis
    unfolding a using up one lo sq by linarith
qed

lemma sin_half_swap:
  "sin (((x - y) * pi) / 180 / 2) * sin (((x - y) * pi) / 180 / 2)
     = sin (((y - x) * pi) / 180 / 2) * sin (((y - x) * pi) / 180 / 2)" for x y :: real
proof -
  have "((x - y) * pi) / 180 / 2 = - (((y - x) * pi) / 180 / 2)"
    by (simp add: field_simps)
  then have "sin (((x - y) * pi) / 180 / 2) = - sin (((y - x) * pi) / 180 / 2)"
    by (simp only: sin_minus)
  then show ?thesis by simp
qed

text \<open>
  On real numbers, for latitudes between -90 and 90, the distance lies between 0 and
  half the circumference, it is 0 between a point and itself, and it is symmetric. This
  is a fact about the formula. It does not carry over to the doubles the program
  computes with: there the rounded \<open>a\<close> of two nearly antipodal points can exceed 1, and
  \<open>Math.sqrt(1 - a)\<close> is then \<open>NaN\<close>.
\<close>

lemma calculateDistance_real_properties:
  assumes "- 90 \<le> lat1" "lat1 \<le> 90" "- 90 \<le> lat2" "lat2 \<le> 90"
  shows "0 \<le> calculateDistance_real lat1 lon1 lat2 lon2
       \<and> calculateDistance_real lat1 lon1 lat2 lon2 \<le> 6371000 * pi
       \<and> calculateDistance_real lat1 lon1 lat1 lon1 = 0
       \<and> calculateDistance_real lat1 lon1 lat2 lon2 = calculateDistance_real lat2 lon2 lat1 lon1"
proof (intro conjI)
  let ?a = "haversine_a lat1 lon1 lat2 lon2"
  from haversine_a_range [OF assms] have a: "0 \<le> ?a" "?a \<le> 1" by auto
  then have "0 \<le> atan2 (sqrt ?a) (sqrt (1 - ?a)) \<and> atan2 (sqrt ?a) (sqrt (1 - ?a)) \<le> pi / 2"
    by (intro atan2_nonneg) simp_all
  then show "0 \<le> calculateDistance_real lat1 lon1 lat2 lon2"
    and "calculateDistance_real lat1 lon1 lat2 lon2 \<le> 6371000 * pi"
    by (simp_all add: calculateDistance_real_def Let_def)
  show "calculateDistance_real lat1 lon1 lat1 lon1 = 0"
    by (simp add: calculateDistance_real_def haversine_a_def atan2_def Let_def)
  have "haversine_a lat2 lon2 lat1 lon1 = haversine_a lat1 lon1 lat2 lon2"
    unfolding haversine_a_def Let_def mult.assoc
      sin_half_swap [of lat1 lat2] sin_half_swap [of lon1 lon2]
    by (simp add: mult.commute mult.left_commute)
  then show "calculateDistance_real lat1 lon1 lat2 lon2 = calculateDistance_real lat2 lon2 lat1 lon1"
    by (simp add: calculateDistance_real_def)
qed

end
